theory Spec2Isabelle
  imports Main
begin

section \<open>The version-consistency checker of BO4E-python\<close>

text \<open>
  A shallow embedding of \<^verbatim>\<open>docs/compatibility/versioning.py\<close>: the class
  \<^verbatim>\<open>Version\<close> (parsing, formatting, comparison, bump predicates), the tag-history
  reader \<^verbatim>\<open>get_last_n_tags\<close>, the release locator and the bump-policy enforcer
  \<^verbatim>\<open>compare_work_tree_with_latest_version\<close>.

  Python integers are unbounded and are modelled by \<^typ>\<open>int\<close>; every \<^verbatim>\<open>raise\<close> and
  the \<^verbatim>\<open>assert\<close> of the source is a value \<open>Inl e\<close> of a sum type. Logging has no
  influence on any result and is left out.
\<close>

subsection \<open>Errors\<close>

text \<open>
  The source raises \<^verbatim>\<open>ValueError\<close> at ten places, told apart here by a reason:
  \<^item> \<open>PatternMismatch\<close>: \<^verbatim>\<open>from_string\<close>, the text does not match the pattern;
  \<^item> \<open>DigitLimitExceeded\<close>: \<^verbatim>\<open>int\<close>, called by \<^verbatim>\<open>from_string\<close> on a group of more
    than 4300 digits;
  \<^item> \<open>UnexpectedCandidate\<close>: \<^verbatim>\<open>from_string\<close>, a candidate where none is allowed;
  \<^item> \<open>CannotCompareCandidates\<close>: the \<^verbatim>\<open>raise\<close> of \<^verbatim>\<open>bumped_candidate\<close>;
  \<^item> \<open>NotExactlyOne\<close>: \<^verbatim>\<open>more_itertools.one\<close> on an iterable of no or several items;
  \<^item> \<open>TaggedLatestNotOnMain\<close>, \<open>LatestNotOnMain\<close>: the two failures of
    \<^verbatim>\<open>ensure_latest_on_main\<close>;
  \<^item> \<open>MajorBumpNotAllowed\<close>, \<open>FunctionalBumpWithoutChanges\<close>,
    \<open>ChangesWithoutFunctionalBump\<close>: the three policy failures of the enforcer.

  \<open>TypeError\<close> is what Python raises for \<^verbatim>\<open>None > None\<close>, \<open>AssertionError\<close> is the
  failed \<^verbatim>\<open>assert\<close> of the enforcer, and \<open>ExternalFailure\<close> stands for any exception of
  a collaborator (the git subprocess, the GitHub client, the schema comparison).
\<close>

datatype reason =
    PatternMismatch
  | DigitLimitExceeded
  | UnexpectedCandidate
  | CannotCompareCandidates
  | NotExactlyOne
  | TaggedLatestNotOnMain
  | LatestNotOnMain
  | MajorBumpNotAllowed
  | FunctionalBumpWithoutChanges
  | ChangesWithoutFunctionalBump

datatype error =
    ValueError reason
  | TypeError
  | AssertionError
  | ExternalFailure

subsection \<open>The class Version\<close>

record Version =
  major :: int
  functional :: int
  technical :: int
  candidate :: "int option"

definition is_candidate :: "Version \<Rightarrow> bool" where
  "is_candidate self = (candidate self \<noteq> None)"

definition bumped_major :: "Version \<Rightarrow> Version \<Rightarrow> bool" where
  "bumped_major self other = (major self > major other)"

definition bumped_functional :: "Version \<Rightarrow> Version \<Rightarrow> bool" where
  "bumped_functional self other =
     (\<not> bumped_major self other \<and> functional self > functional other)"

definition bumped_technical :: "Version \<Rightarrow> Version \<Rightarrow> bool" where
  "bumped_technical self other =
     (\<not> bumped_functional self other \<and> technical self > technical other)"

text \<open>
  Python's \<^verbatim>\<open>x > y\<close> on two \<^verbatim>\<open>Optional[int]\<close>: a \<^verbatim>\<open>TypeError\<close> as soon as one side
  is \<^verbatim>\<open>None\<close>.
\<close>

definition gt_optional :: "int option \<Rightarrow> int option \<Rightarrow> error + bool" where
  "gt_optional x y =
     (case x of
        None \<Rightarrow> Inl TypeError
      | Some c \<Rightarrow> (case y of None \<Rightarrow> Inl TypeError | Some d \<Rightarrow> Inr (c > d)))"

text \<open>
  \<^verbatim>\<open>bumped_candidate\<close>: the guard raises when a candidate number is present on either
  side (\<^verbatim>\<open>is not None\<close>); behind it \<^verbatim>\<open>and\<close> evaluates its right operand only when
  the left one is true.
\<close>

definition bumped_candidate :: "Version \<Rightarrow> Version \<Rightarrow> error + bool" where
  "bumped_candidate self other =
     (if candidate self \<noteq> None \<or> candidate other \<noteq> None
      then Inl (ValueError CannotCompareCandidates)
      else if \<not> bumped_technical self other
           then gt_optional (candidate self) (candidate other)
           else Inr False)"

text \<open>
  \<^verbatim>\<open>__gt__\<close>. The comparison of the candidate numbers is reached only when both
  versions are candidates, so it cannot raise.
\<close>

definition Version_gt :: "Version \<Rightarrow> Version \<Rightarrow> bool" where
  "Version_gt self other =
     (major self > major other
      \<or> functional self > functional other
      \<or> technical self > technical other
      \<or> (is_candidate self
           \<and> (\<not> is_candidate other
                \<or> (case candidate self of
                      None \<Rightarrow> False
                    | Some c \<Rightarrow> (case candidate other of None \<Rightarrow> False | Some d \<Rightarrow> c > d)))))"

text \<open>\<^verbatim>\<open>__eq__\<close>.\<close>

definition Version_eq :: "Version \<Rightarrow> Version \<Rightarrow> bool" where
  "Version_eq self other =
     (major self = major other
      \<and> functional self = functional other
      \<and> technical self = technical other
      \<and> is_candidate self = is_candidate other
      \<and> (\<not> is_candidate self \<or> candidate self = candidate other))"

text \<open>
  \<^verbatim>\<open>__lt__\<close> as \<^verbatim>\<open>functools.total_ordering\<close> derives it from \<^verbatim>\<open>__gt__\<close>:
  \<^verbatim>\<open>not (self > other) and self != other\<close>.
\<close>

definition Version_lt :: "Version \<Rightarrow> Version \<Rightarrow> bool" where
  "Version_lt self other = (\<not> Version_gt self other \<and> \<not> Version_eq self other)"

text \<open>
  The two shapes of a version: the final release \<^verbatim>\<open>vM.F.T\<close> and the release
  candidate \<^verbatim>\<open>vM.F.T-rcN\<close>.
\<close>

definition final_release :: "int \<Rightarrow> int \<Rightarrow> int \<Rightarrow> Version" where
  "final_release M F T = \<lparr>major = M, functional = F, technical = T, candidate = None\<rparr>"

definition release_candidate :: "int \<Rightarrow> int \<Rightarrow> int \<Rightarrow> int \<Rightarrow> Version" where
  "release_candidate M F T N =
     \<lparr>major = M, functional = F, technical = T, candidate = Some N\<rparr>"

subsection \<open>Strings, digits and numbers\<close>

text \<open>
  A Python string is the list of its code points. \<open>lit\<close> turns a literal of the source
  into such a list.
\<close>

type_synonym py_str = "nat list"

definition lit :: "string \<Rightarrow> py_str" where
  "lit s = map of_char s"

text \<open>
  The pattern is a \<^verbatim>\<open>str\<close> pattern compiled without \<^verbatim>\<open>re.ASCII\<close>, so \<^verbatim>\<open>\d\<close> matches every
  decimal digit of Unicode (category \<^verbatim>\<open>Nd\<close>), and \<^verbatim>\<open>int\<close> reads each of them with its
  decimal value. The decimal digits come in runs of ten consecutive code points, from the
  zero to the nine of a script; \<open>decimal_zeros\<close> lists the zero of every run in the
  Unicode data of CPython 3.11 (version 14.0.0), the ASCII zero first.
\<close>

definition other_decimal_zeros :: "nat list" where
  "other_decimal_zeros =
     [1632, 1776, 1984, 2406, 2534, 2662, 2790, 2918, 3046, 3174, 3302, 3430, 3558, 3664,
      3792, 3872, 4160, 4240, 6112, 6160, 6470, 6608, 6784, 6800, 6992, 7088, 7232, 7248,
      42528, 43216, 43264, 43472, 43504, 43600, 44016, 65296, 66720, 68912, 69734, 69872,
      69942, 70096, 70384, 70736, 70864, 71248, 71360, 71472, 71904, 72016, 72784, 73040,
      73120, 92768, 92864, 93008, 120782, 120792, 120802, 120812, 120822, 123200, 123632,
      125264, 130032]"

definition decimal_zeros :: "nat list" where
  "decimal_zeros = 48 # other_decimal_zeros"

definition zero_of :: "nat \<Rightarrow> nat option" where
  "zero_of c = find (\<lambda>z. z \<le> c \<and> c \<le> z + 9) decimal_zeros"

definition is_digit :: "nat \<Rightarrow> bool" where
  "is_digit c = (zero_of c \<noteq> None)"

definition digit_value :: "nat \<Rightarrow> nat" where
  "digit_value c = (case zero_of c of None \<Rightarrow> 0 | Some z \<Rightarrow> c - z)"

definition digits_value :: "py_str \<Rightarrow> nat" where
  "digits_value ds = foldl (\<lambda>a c. 10 * a + digit_value c) 0 ds"

text \<open>
  \<^verbatim>\<open>int\<close> on a run of digits. CPython refuses a text of more than
  \<^verbatim>\<open>sys.int_info.default_max_str_digits\<close> digits, leading zeros counted, with a
  \<^verbatim>\<open>ValueError\<close>.
\<close>

definition max_str_digits :: nat where
  "max_str_digits = 4300"

definition py_int :: "py_str \<Rightarrow> error + int" where
  "py_int ds =
     (if length ds > max_str_digits then Inl (ValueError DigitLimitExceeded)
      else Inr (int (digits_value ds)))"

text \<open>
  \<^verbatim>\<open>str\<close> on an integer, as the f-string of \<^verbatim>\<open>tag_name\<close> applies it: ASCII digits, no
  leading zero, a minus sign for a negative number. (\<^verbatim>\<open>str\<close> has the same limit of 4300
  digits. Every version the checker formats was parsed before, so its numbers have at
  most 4300 digits and the limit is not reached.)
\<close>

definition digit_char :: "nat \<Rightarrow> nat" where
  "digit_char d = 48 + d"

fun str_nat :: "nat \<Rightarrow> py_str" where
  "str_nat n =
     (if n < 10 then [digit_char n] else str_nat (n div 10) @ [digit_char (n mod 10)])"

definition str_int :: "int \<Rightarrow> py_str" where
  "str_int i = (if i < 0 then lit ''-'' @ str_nat (nat (- i)) else str_nat (nat i))"

subsection \<open>Parsing and formatting\<close>

text \<open>
  \<^verbatim>\<open>version_pattern.fullmatch\<close> for the pattern
  \<^verbatim>\<open>^v(?P<major>\d{6})\.(?P<functional>\d+)\.(?P<technical>\d+)(?:-rc(?P<candidate>\d+))?$\<close>.
  A digit is never a separator, so each group is the longest run of digits at its place
  and the match, when there is one, is unique. The result holds the four groups, the last
  one optional. \<open>match_candidate\<close> is the tail \<^verbatim>\<open>(?:-rc(?P<candidate>\d+))?$\<close>.
\<close>

fun match_candidate :: "py_str \<Rightarrow> py_str option option" where
  "match_candidate [] = Some None"
| "match_candidate (a # b # c # ds) =
     (if [a, b, c] = lit ''-rc'' \<and> ds \<noteq> [] \<and> list_all is_digit ds
      then Some (Some ds) else None)"
| "match_candidate _ = None"

definition version_pattern_fullmatch ::
  "py_str \<Rightarrow> (py_str \<times> py_str \<times> py_str \<times> py_str option) option" where
  "version_pattern_fullmatch s =
     (case s of
        [] \<Rightarrow> None
      | c # r \<Rightarrow>
          if [c] \<noteq> lit ''v'' then None
          else let mj = takeWhile is_digit r; r1 = dropWhile is_digit r in
            if length mj \<noteq> 6 then None
            else (case r1 of
                [] \<Rightarrow> None
              | d1 # r2 \<Rightarrow>
                  if [d1] \<noteq> lit ''.'' then None
                  else let fn = takeWhile is_digit r2; r3 = dropWhile is_digit r2 in
                    if fn = [] then None
                    else (case r3 of
                        [] \<Rightarrow> None
                      | d2 # r4 \<Rightarrow>
                          if [d2] \<noteq> lit ''.'' then None
                          else let tc = takeWhile is_digit r4; r5 = dropWhile is_digit r4 in
                            if tc = [] then None
                            else (case match_candidate r5 of
                                None \<Rightarrow> None
                              | Some cd \<Rightarrow> Some (mj, fn, tc, cd)))))"

text \<open>
  \<^verbatim>\<open>from_string\<close>. The four calls of \<^verbatim>\<open>int\<close> run in the order of the fields; the
  first one that raises ends the call.
\<close>

definition from_string :: "py_str \<Rightarrow> bool \<Rightarrow> error + Version" where
  "from_string version allow_candidate =
     (case version_pattern_fullmatch version of
        None \<Rightarrow> Inl (ValueError PatternMismatch)
      | Some (mj, fn, tc, cd) \<Rightarrow>
     (case py_int mj of Inl e \<Rightarrow> Inl e | Inr major_number \<Rightarrow>
     (case py_int fn of Inl e \<Rightarrow> Inl e | Inr functional_number \<Rightarrow>
     (case py_int tc of Inl e \<Rightarrow> Inl e | Inr technical_number \<Rightarrow>
     (case (case cd of
              None \<Rightarrow> Inr None
            | Some g \<Rightarrow> (case py_int g of Inl e \<Rightarrow> Inl e | Inr k \<Rightarrow> Inr (Some k))) of
        Inl e \<Rightarrow> Inl e
      | Inr candidate_number \<Rightarrow>
          let inst = \<lparr>major = major_number, functional = functional_number,
                      technical = technical_number, candidate = candidate_number\<rparr>
          in if \<not> allow_candidate \<and> is_candidate inst
             then Inl (ValueError UnexpectedCandidate)
             else Inr inst)))))"

definition tag_name :: "Version \<Rightarrow> py_str" where
  "tag_name self =
     lit ''v'' @ str_int (major self) @ lit ''.'' @ str_int (functional self) @ lit ''.''
       @ str_int (technical self)
       @ (case candidate self of None \<Rightarrow> [] | Some c \<Rightarrow> lit ''-rc'' @ str_int c)"

text \<open>
  Notions for the statements about parsing: the text of the optional group, the shape of
  the four groups of a match, and the plain writing of a number (ASCII digits, and either
  \<^verbatim>\<open>0\<close> itself or no \<^verbatim>\<open>0\<close> in front), which is the writing of \<^verbatim>\<open>str\<close>.
\<close>

definition candidate_suffix :: "py_str option \<Rightarrow> py_str" where
  "candidate_suffix cd = (case cd of None \<Rightarrow> [] | Some c \<Rightarrow> lit ''-rc'' @ c)"

definition digit_groups :: "py_str \<times> py_str \<times> py_str \<times> py_str option \<Rightarrow> bool" where
  "digit_groups g =
     (case g of (mj, fn, tc, cd) \<Rightarrow>
        list_all is_digit mj \<and> length mj = 6
        \<and> list_all is_digit fn \<and> fn \<noteq> []
        \<and> list_all is_digit tc \<and> tc \<noteq> []
        \<and> (case cd of None \<Rightarrow> True | Some c \<Rightarrow> list_all is_digit c \<and> c \<noteq> []))"

definition ascii_digit :: "nat \<Rightarrow> bool" where
  "ascii_digit c = (48 \<le> c \<and> c \<le> 57)"

definition plain_number :: "py_str \<Rightarrow> bool" where
  "plain_number ds =
     (list_all ascii_digit ds \<and> (case ds of [] \<Rightarrow> False | c # r \<Rightarrow> c \<noteq> 48 \<or> r = []))"

definition plain_version_text :: "py_str \<Rightarrow> bool" where
  "plain_version_text s =
     (case version_pattern_fullmatch s of
        None \<Rightarrow> False
      | Some (mj, fn, tc, cd) \<Rightarrow>
          plain_number mj \<and> plain_number fn \<and> plain_number tc
          \<and> (case cd of None \<Rightarrow> True | Some c \<Rightarrow> plain_number c))"

subsection \<open>The collaborators\<close>

text \<open>
  The checker reads the world through five calls, gathered in a record so that a run is a
  function of it. \<open>None\<close> means that the call raised.
  \<^item> \<open>latest_release_tag\<close>: the tag name of the release GitHub marks as latest
    (\<^verbatim>\<open>gh.get_repo("bo4e/BO4E-python").get_latest_release().tag_name\<close>);
  \<^item> \<open>git_tag_merged reference\<close>: the lines of
    \<^verbatim>\<open>git tag --merged <reference> --sort=-creatordate\<close>;
  \<^item> \<open>git_rev_parse revision\<close>: the decoded output of \<^verbatim>\<open>git rev-parse <revision>\<close>;
  \<^item> \<open>git_branch_contains commit\<close>: the lines of \<^verbatim>\<open>git branch -a --contains <commit>\<close>;
  \<^item> \<open>compare_bo4e_versions behind ahead\<close>: the changes that the schema comparison of
    \<^verbatim>\<open>docs/compatibility/__main__.py\<close> finds between two tags.
\<close>

record 'c environment =
  latest_release_tag :: "py_str option"
  git_tag_merged :: "py_str \<Rightarrow> py_str list option"
  git_rev_parse :: "py_str \<Rightarrow> py_str option"
  git_branch_contains :: "py_str \<Rightarrow> py_str list option"
  compare_bo4e_versions :: "py_str \<Rightarrow> py_str \<Rightarrow> 'c list option"

definition get_latest_version :: "'c environment \<Rightarrow> error + Version" where
  "get_latest_version env =
     (case latest_release_tag env of
        None \<Rightarrow> Inl ExternalFailure
      | Some t \<Rightarrow> from_string t False)"

subsection \<open>The tag-history reader\<close>

definition startswith :: "py_str \<Rightarrow> py_str \<Rightarrow> bool" where
  "startswith s p = (take (length p) s = p)"

text \<open>
  The loop of the generator \<^verbatim>\<open>get_last_n_tags\<close>. The result is the sequence of the tags
  it yields and the way it ends: \<open>None\<close> when it returns, \<open>Some e\<close> when it raises
  \<open>e\<close> after the tags before.
\<close>

fun tags_loop :: "int \<Rightarrow> bool \<Rightarrow> int \<Rightarrow> py_str list \<Rightarrow> py_str list \<times> error option" where
  "tags_loop n exclude_candidates counter [] = ([], None)"
| "tags_loop n exclude_candidates counter (tag # output) =
     (if counter \<ge> n then ([], None)
      else case from_string tag True of
          Inl e \<Rightarrow> ([], Some e)
        | Inr version \<Rightarrow>
            if exclude_candidates \<and> is_candidate version
            then tags_loop n exclude_candidates counter output
            else (case tags_loop n exclude_candidates (counter + 1) output of
                    (tags, ending) \<Rightarrow> (tag # tags, ending)))"

definition get_last_n_tags ::
  "'c environment \<Rightarrow> int \<Rightarrow> py_str \<Rightarrow> bool \<Rightarrow> py_str list \<times> error option" where
  "get_last_n_tags env n on_branch exclude_candidates =
     (let reference =
            (case from_string on_branch True of
               Inl e \<Rightarrow> lit ''remotes/origin/'' @ on_branch
             | Inr v \<Rightarrow> lit ''tags/'' @ on_branch)
      in case git_tag_merged env reference of
          None \<Rightarrow> ([], Some ExternalFailure)
        | Some output \<Rightarrow>
            tags_loop n exclude_candidates 0
              (if startswith reference (lit ''tags/'') then drop 1 output else output))"

subsection \<open>The release locator\<close>

text \<open>
  \<^verbatim>\<open>more_itertools.one\<close> on such a sequence: it asks for a first item and then for a
  second one, so an exception of the generator reaches the caller when it comes before
  the second item.
\<close>

fun one :: "py_str list \<times> error option \<Rightarrow> error + py_str" where
  "one ([], None) = Inl (ValueError NotExactlyOne)"
| "one ([], Some e) = Inl e"
| "one ([x], None) = Inr x"
| "one ([x], Some e) = Inl e"
| "one (x # y # tags, ending) = Inl (ValueError NotExactlyOne)"

definition get_last_version_before :: "'c environment \<Rightarrow> Version \<Rightarrow> error + Version" where
  "get_last_version_before env version =
     (case one (get_last_n_tags env 1 (tag_name version) True) of
        Inl e \<Rightarrow> Inl e
      | Inr t \<Rightarrow> from_string t False)"

text \<open>
  \<^verbatim>\<open>str.strip\<close>, \<^verbatim>\<open>str.lstrip\<close> and \<^verbatim>\<open>str.lstrip(chars)\<close>. \<open>white_space\<close> lists the
  code points that \<^verbatim>\<open>str.isspace\<close> accepts.
\<close>

definition white_space :: "nat list" where
  "white_space =
     [9, 10, 11, 12, 13, 28, 29, 30, 31, 32, 133, 160, 5760, 8192, 8193, 8194, 8195, 8196,
      8197, 8198, 8199, 8200, 8201, 8202, 8232, 8233, 8239, 8287, 12288]"

definition is_space :: "nat \<Rightarrow> bool" where
  "is_space c = (c \<in> set white_space)"

definition lstrip :: "py_str \<Rightarrow> py_str" where
  "lstrip s = dropWhile is_space s"

definition rstrip :: "py_str \<Rightarrow> py_str" where
  "rstrip s = rev (dropWhile is_space (rev s))"

definition strip :: "py_str \<Rightarrow> py_str" where
  "strip s = lstrip (rstrip s)"

definition lstrip_chars :: "py_str \<Rightarrow> py_str \<Rightarrow> py_str" where
  "lstrip_chars chars s = dropWhile (\<lambda>c. c \<in> set chars) s"

definition ensure_latest_on_main :: "'c environment \<Rightarrow> Version \<Rightarrow> bool \<Rightarrow> error + unit" where
  "ensure_latest_on_main env latest_version is_cur_version_latest =
     (case git_rev_parse env (lit ''tags/'' @ tag_name latest_version @ lit ''~0'') of
        None \<Rightarrow> Inl ExternalFailure
      | Some out \<Rightarrow>
          let commit_id = strip out in
          case git_branch_contains env commit_id of
            None \<Rightarrow> Inl ExternalFailure
          | Some branch_lines \<Rightarrow>
              let branches_containing_commit =
                    map (\<lambda>line. lstrip (lstrip_chars (lit ''*'') (strip line))) branch_lines
              in if lit ''remotes/origin/main'' \<notin> set branches_containing_commit
                 then (if is_cur_version_latest
                       then Inl (ValueError TaggedLatestNotOnMain)
                       else Inl (ValueError LatestNotOnMain))
                 else Inr ())"

subsection \<open>The bump-policy enforcer\<close>

text \<open>
  \<^verbatim>\<open>compare_work_tree_with_latest_version\<close>. The token only authenticates the GitHub
  client and is left out. The \<^verbatim>\<open>assert\<close> is taken as executed (Python run without
  \<^verbatim>\<open>-O\<close>).
\<close>

definition compare_work_tree_with_latest_version ::
  "'c environment \<Rightarrow> py_str \<Rightarrow> bool \<Rightarrow> error + unit" where
  "compare_work_tree_with_latest_version env gh_version major_bump_allowed =
     (case from_string gh_version True of
        Inl e \<Rightarrow> Inl e
      | Inr cur_version \<Rightarrow>
     (case get_latest_version env of
        Inl e \<Rightarrow> Inl e
      | Inr latest_version \<Rightarrow>
     (let is_cur_version_latest = Version_eq cur_version latest_version in
      case ensure_latest_on_main env latest_version is_cur_version_latest of
        Inl e \<Rightarrow> Inl e
      | Inr u \<Rightarrow>
     (let version_ahead = cur_version in
      case get_last_version_before env cur_version of
        Inl e \<Rightarrow> Inl e
      | Inr version_behind \<Rightarrow>
          if \<not> Version_gt version_ahead version_behind then Inl AssertionError
          else if bumped_major version_ahead version_behind
          then (if \<not> major_bump_allowed then Inl (ValueError MajorBumpNotAllowed)
                else Inr ())
          else (case compare_bo4e_versions env (tag_name version_behind)
                       (tag_name version_ahead) of
              None \<Rightarrow> Inl ExternalFailure
            | Some changes \<Rightarrow>
                let functional_changes = (length changes > 0) in
                if \<not> functional_changes \<and> bumped_functional version_ahead version_behind
                then Inl (ValueError FunctionalBumpWithoutChanges)
                else if functional_changes
                        \<and> \<not> bumped_functional version_ahead version_behind
                then Inl (ValueError ChangesWithoutFunctionalBump)
                else Inr ())))))"

text \<open>
  Two histories to run the checker on. In the first one the tag under check is the
  newest; behind it come a release candidate, the latest release \<^verbatim>\<open>v202401.1.1\<close>, which
  is on the main branch, and \<^verbatim>\<open>v202401.1.0\<close>; the schema comparison reports the
  changes given. In the second one the tag
  \<^verbatim>\<open>v202401.0.1\<close> was created after \<^verbatim>\<open>v202401.1.0\<close> on a commit that
  \<^verbatim>\<open>v202401.1.0\<close> contains, so it comes first in the listing by creation date.
\<close>

definition release_history :: "py_str \<Rightarrow> py_str list \<Rightarrow> py_str environment" where
  "release_history ahead changes =
     \<lparr>latest_release_tag = Some (lit ''v202401.1.1''),
      git_tag_merged = (\<lambda>reference.
        if reference = lit ''tags/'' @ ahead
        then Some [ahead, lit ''v202401.2.0-rc1'', lit ''v202401.1.1'', lit ''v202401.1.0'']
        else None),
      git_rev_parse = (\<lambda>revision.
        if revision = lit ''tags/v202401.1.1~0'' then Some (lit ''0a1b2c3'' @ [10]) else None),
      git_branch_contains = (\<lambda>commit.
        if commit = lit ''0a1b2c3''
        then Some [lit ''* main'', lit ''  remotes/origin/HEAD -> origin/main'',
                   lit ''  remotes/origin/main'']
        else None),
      compare_bo4e_versions = (\<lambda>behind_tag ahead_tag.
        if behind_tag = lit ''v202401.1.1'' \<and> ahead_tag = ahead then Some changes else None)\<rparr>"

definition late_tag_history :: "py_str environment" where
  "late_tag_history =
     \<lparr>latest_release_tag = Some (lit ''v202401.1.0''),
      git_tag_merged = (\<lambda>reference.
        if reference = lit ''tags/v202401.1.0''
        then Some [lit ''v202401.0.1'', lit ''v202401.1.0'', lit ''v202401.0.0'']
        else None),
      git_rev_parse = (\<lambda>revision. None),
      git_branch_contains = (\<lambda>commit. None),
      compare_bo4e_versions = (\<lambda>behind_tag ahead_tag. None)\<rparr>"

section \<open>Properties of the comparison and the bump predicates\<close>

lemmas Version_shapes = final_release_def release_candidate_def is_candidate_def

lemmas bumped_defs = bumped_major_def bumped_functional_def bumped_technical_def

lemma Version_gt_not_eq: "Version_gt a b \<Longrightarrow> \<not> Version_eq a b"
  by (auto simp add: Version_gt_def Version_eq_def is_candidate_def split: option.splits)

lemma Version_eq_refl: "Version_eq a a"
  by (simp add: Version_eq_def)

lemma Version_trichotomy:
  "(Version_lt a b \<and> \<not> Version_eq a b \<and> \<not> Version_gt a b)
   \<or> (Version_eq a b \<and> \<not> Version_lt a b \<and> \<not> Version_gt a b)
   \<or> (Version_gt a b \<and> \<not> Version_lt a b \<and> \<not> Version_eq a b)"
  using Version_gt_not_eq [of a b] by (auto simp add: Version_lt_def)

text \<open>
  Claim C1, as the code has it: a release candidate \<^verbatim>\<open>vM.F.T-rcN\<close> compares strictly
  greater than the final release \<^verbatim>\<open>vM.F.T\<close> of the same triple, the final release is
  not greater than any of its candidates, and of two candidates of one triple exactly the
  one with the higher candidate number is the greater.
\<close>

theorem candidate_ordering:
  "Version_gt (release_candidate M F T N) (final_release M F T)
   \<and> \<not> Version_gt (final_release M F T) (release_candidate M F T N)
   \<and> (Version_gt (release_candidate M F T N) (release_candidate M F T N') = (N > N'))"
  by (simp add: Version_gt_def Version_shapes)

theorem candidate_ordering_witness:
  "Version_gt (release_candidate 202401 1 2 3) (final_release 202401 1 2)
   \<and> \<not> Version_gt (final_release 202401 1 2) (release_candidate 202401 1 2 3)
   \<and> (Version_gt (release_candidate 202401 1 2 3) (release_candidate 202401 1 2 1) = ((3::int) > 1))"
  by (rule candidate_ordering)

text \<open>
  The claim as the specification words it fails: \<^verbatim>\<open>v202401.1.2\<close> is not greater than
  \<^verbatim>\<open>v202401.1.2-rc3\<close>.
\<close>

theorem candidate_ordering_counterexample:
  "\<not> Version_gt (final_release 202401 1 2) (release_candidate 202401 1 2 3)"
  by (simp add: Version_gt_def Version_shapes)

text \<open>
  Claim C2: the comparison is not transitive. \<^verbatim>\<open>v202401.1.0 > v202402.0.0\<close> (the
  functional number is higher), \<^verbatim>\<open>v202402.0.0 > v202401.1.1\<close> (the major number is
  higher), and yet \<^verbatim>\<open>v202401.1.0 > v202401.1.1\<close> is false.
\<close>

theorem gt_not_transitive:
  "Version_gt (final_release 202401 1 0) (final_release 202402 0 0)
   \<and> Version_gt (final_release 202402 0 0) (final_release 202401 1 1)
   \<and> \<not> Version_gt (final_release 202401 1 0) (final_release 202401 1 1)"
  by (simp add: Version_gt_def Version_shapes)

theorem gt_not_transitive_witness:
  "\<not> (Version_gt (final_release 202401 1 0) (final_release 202402 0 0)
      \<and> Version_gt (final_release 202402 0 0) (final_release 202401 1 1)
      \<longrightarrow> Version_gt (final_release 202401 1 0) (final_release 202401 1 1))"
  using gt_not_transitive by blast

lemma bumped_candidate_raises_iff:
  "(bumped_candidate a b = Inl (ValueError CannotCompareCandidates))
   = (is_candidate a \<or> is_candidate b)"
  by (auto simp add: bumped_candidate_def gt_optional_def is_candidate_def)

text \<open>
  Claim C4: on two release candidates \<^verbatim>\<open>bumped_candidate\<close> raises the
  \<^verbatim>\<open>ValueError\<close>, and on two final releases it does not: it returns \<^verbatim>\<open>False\<close> after a
  technical bump and raises a \<^verbatim>\<open>TypeError\<close> otherwise.
\<close>

theorem bumped_candidate_guard_inverted:
  "bumped_candidate (release_candidate 202401 1 2 3) (release_candidate 202401 1 2 1)
     = Inl (ValueError CannotCompareCandidates)
   \<and> bumped_candidate (final_release 202401 1 2) (final_release 202401 1 1) = Inr False
   \<and> bumped_candidate (final_release 202401 1 2) (final_release 202401 1 2) = Inl TypeError"
  by (simp add: bumped_candidate_def gt_optional_def Version_shapes bumped_defs)

theorem bumped_candidate_guard_inverted_witness:
  "\<exists>e. bumped_candidate (release_candidate 202401 1 2 3) (release_candidate 202401 1 2 1)
     = Inl e"
  using bumped_candidate_guard_inverted by blast

text \<open>
  Claim C5: \<^verbatim>\<open>v202402.0.1 > v202401.0.0\<close>, and both \<^verbatim>\<open>bumped_major\<close> and
  \<^verbatim>\<open>bumped_technical\<close> are true of the pair.
\<close>

theorem bump_not_exclusive:
  "Version_gt (final_release 202402 0 1) (final_release 202401 0 0)
   \<and> bumped_major (final_release 202402 0 1) (final_release 202401 0 0)
   \<and> \<not> bumped_functional (final_release 202402 0 1) (final_release 202401 0 0)
   \<and> bumped_technical (final_release 202402 0 1) (final_release 202401 0 0)"
  by (simp add: Version_gt_def Version_shapes bumped_defs)

theorem bump_not_exclusive_witness:
  "bumped_major (final_release 202402 0 1) (final_release 202401 0 0)
   \<and> bumped_technical (final_release 202402 0 1) (final_release 202401 0 0)"
  using bump_not_exclusive by blast

text \<open>
  Claim C10: \<^verbatim>\<open>bumped_candidate\<close> never returns \<^verbatim>\<open>True\<close>. Every call ends in the
  \<^verbatim>\<open>ValueError\<close> of the guard, in the \<^verbatim>\<open>TypeError\<close> of \<^verbatim>\<open>None > None\<close>, or in
  \<^verbatim>\<open>False\<close>.
\<close>

theorem bumped_candidate_never_True:
  "bumped_candidate a b = Inl (ValueError CannotCompareCandidates)
   \<or> bumped_candidate a b = Inl TypeError
   \<or> bumped_candidate a b = Inr False"
  by (simp add: bumped_candidate_def gt_optional_def)

theorem bumped_candidate_never_True_witness:
  "bumped_candidate (release_candidate 202401 1 2 3) (release_candidate 202401 1 2 1)
     \<noteq> Inr True"
  using bumped_candidate_never_True
    [of "release_candidate 202401 1 2 3" "release_candidate 202401 1 2 1"]
  by auto

section \<open>Properties of parsing and formatting\<close>

declare str_nat.simps [simp del]

lemma str_nat_digit: "n < 10 \<Longrightarrow> str_nat n = [digit_char n]"
  by (simp add: str_nat.simps)

lemma str_nat_step: "10 \<le> n \<Longrightarrow> str_nat n = str_nat (n div 10) @ [digit_char (n mod 10)]"
  by (subst str_nat.simps) simp

subsection \<open>Decimal digits\<close>

lemma other_zeros_above: "list_all (\<lambda>z. 1632 \<le> z) other_decimal_zeros"
  by (simp add: other_decimal_zeros_def)

lemma zero_of_low: "c < 1632 \<Longrightarrow> zero_of c = (if 48 \<le> c \<and> c \<le> 57 then Some 48 else None)"
proof -
  assume c: "c < 1632"
  have "find (\<lambda>z. z \<le> c \<and> c \<le> z + 9) other_decimal_zeros = None"
    using other_zeros_above c by (auto simp add: find_None_iff list_all_iff)
  then show ?thesis by (auto simp add: zero_of_def decimal_zeros_def)
qed

lemma is_digit_low: "c < 1632 \<Longrightarrow> is_digit c = (48 \<le> c \<and> c \<le> 57)"
  by (simp add: is_digit_def zero_of_low)

lemma digit_value_low:
  "c < 1632 \<Longrightarrow> digit_value c = (if 48 \<le> c \<and> c \<le> 57 then c - 48 else 0)"
  by (simp add: digit_value_def zero_of_low)

lemmas eval_simps = lit_def is_digit_low digit_value_low digit_char_def digits_value_def
  py_int_def max_str_digits_def str_int_def str_nat_digit str_nat_step
  version_pattern_fullmatch_def from_string_def tag_name_def is_candidate_def Let_def

lemma ascii_digit_is_digit: "ascii_digit c \<Longrightarrow> is_digit c"
  by (simp add: ascii_digit_def is_digit_low)

lemma ascii_digits_are_digits: "list_all ascii_digit ds \<Longrightarrow> list_all is_digit ds"
  by (induction ds) (simp_all add: ascii_digit_is_digit)

lemma ascii_digit_digit_char: "d < 10 \<Longrightarrow> ascii_digit (digit_char d)"
  by (simp add: ascii_digit_def digit_char_def)

lemma digit_value_digit_char: "d < 10 \<Longrightarrow> digit_value (digit_char d) = d"
  by (simp add: digit_char_def digit_value_low)

lemma digit_char_digit_value: "ascii_digit c \<Longrightarrow> digit_char (digit_value c) = c"
  by (simp add: ascii_digit_def digit_char_def digit_value_low)

lemma digit_value_less: "is_digit c \<Longrightarrow> digit_value c < 10"
  by (auto simp add: is_digit_def digit_value_def zero_of_def find_Some_iff
      split: option.splits)

lemma digit_value_pos: "ascii_digit c \<Longrightarrow> c \<noteq> 48 \<Longrightarrow> 0 < digit_value c"
  by (simp add: ascii_digit_def digit_value_low)

lemma digits_value_snoc: "digits_value (ds @ [c]) = 10 * digits_value ds + digit_value c"
  by (simp add: digits_value_def)

lemma digits_value_single: "digits_value [c] = digit_value c"
  by (simp add: digits_value_def)

lemma str_nat_ascii: "list_all ascii_digit (str_nat n)"
proof (induction n rule: str_nat.induct)
  case (1 n)
  show ?case
  proof (cases "n < 10")
    case True
    then show ?thesis by (simp add: str_nat_digit ascii_digit_digit_char)
  next
    case False
    then show ?thesis using 1 by (simp add: str_nat_step ascii_digit_digit_char)
  qed
qed

lemma str_nat_digits: "list_all is_digit (str_nat n)"
  using str_nat_ascii by (rule ascii_digits_are_digits)

lemma str_nat_not_Nil: "str_nat n \<noteq> []"
  by (cases "n < 10") (simp_all add: str_nat_digit str_nat_step)

lemma digits_value_str_nat: "digits_value (str_nat n) = n"
proof (induction n rule: str_nat.induct)
  case (1 n)
  show ?case
  proof (cases "n < 10")
    case True
    then show ?thesis by (simp add: str_nat_digit digits_value_single digit_value_digit_char)
  next
    case False
    then show ?thesis using 1
      by (simp add: str_nat_step digits_value_snoc digit_value_digit_char)
  qed
qed

lemma digits_value_pos:
  "list_all ascii_digit ds \<Longrightarrow> ds \<noteq> [] \<Longrightarrow> hd ds \<noteq> 48 \<Longrightarrow> 0 < digits_value ds"
proof (induction ds rule: rev_induct)
  case Nil
  then show ?case by simp
next
  case (snoc c xs)
  show ?case
  proof (cases "xs = []")
    case True
    then show ?thesis using snoc.prems
      by (simp add: digits_value_single digit_value_pos)
  next
    case False
    then have "0 < digits_value xs" using snoc by simp
    then show ?thesis by (simp add: digits_value_snoc)
  qed
qed

lemma str_nat_digits_value: "plain_number ds \<Longrightarrow> str_nat (digits_value ds) = ds"
proof (induction ds rule: rev_induct)
  case Nil
  then show ?case by (simp add: plain_number_def)
next
  case (snoc c xs)
  have dc: "ascii_digit c" using snoc.prems by (simp add: plain_number_def)
  have dl: "digit_value c < 10" using dc by (simp add: ascii_digit_is_digit digit_value_less)
  show ?case
  proof (cases "xs = []")
    case True
    then show ?thesis using dc dl
      by (simp add: digits_value_single str_nat_digit digit_char_digit_value)
  next
    case False
    then obtain y ys where xs: "xs = y # ys" by (cases xs) auto
    have nz: "y \<noteq> 48" using snoc.prems xs by (simp add: plain_number_def)
    have dx: "list_all ascii_digit xs" using snoc.prems by (simp add: plain_number_def)
    have px: "plain_number xs" using nz xs dx by (simp add: plain_number_def)
    have ih: "str_nat (digits_value xs) = xs" using snoc.IH px by simp
    have "0 < digits_value xs" using dx nz xs by (intro digits_value_pos) simp_all
    then have big: "10 \<le> 10 * digits_value xs + digit_value c" by simp
    have "str_nat (10 * digits_value xs + digit_value c)
          = str_nat ((10 * digits_value xs + digit_value c) div 10)
            @ [digit_char ((10 * digits_value xs + digit_value c) mod 10)]"
      using big by (rule str_nat_step)
    also have "(10 * digits_value xs + digit_value c) div 10 = digits_value xs"
      using dl by simp
    also have "(10 * digits_value xs + digit_value c) mod 10 = digit_value c"
      using dl by simp
    finally show ?thesis using ih dc
      by (simp add: digits_value_snoc digit_char_digit_value)
  qed
qed

lemma digits_value_bound: "list_all is_digit ds \<Longrightarrow> digits_value ds < 10 ^ length ds"
proof (induction ds rule: rev_induct)
  case Nil
  then show ?case by (simp add: digits_value_def)
next
  case (snoc c xs)
  have "digit_value c < 10" using snoc.prems by (simp add: digit_value_less)
  moreover have "digits_value xs < 10 ^ length xs" using snoc by simp
  ultimately show ?case by (simp add: digits_value_snoc)
qed

lemma length_str_nat: "10 ^ k \<le> n \<Longrightarrow> n < 10 ^ Suc k \<Longrightarrow> length (str_nat n) = Suc k"
proof (induction k arbitrary: n)
  case 0
  then show ?case by (simp add: str_nat_digit)
next
  case (Suc k)
  have big: "10 \<le> n"
  proof -
    have "(1::nat) \<le> 10 ^ k" by simp
    then show ?thesis using Suc.prems(1) unfolding power_Suc by linarith
  qed
  have lo: "10 ^ k \<le> n div 10" using Suc.prems(1) by simp
  have hi: "n div 10 < 10 ^ Suc k" using Suc.prems(2) by simp
  show ?case using Suc.IH [OF lo hi] big by (simp add: str_nat_step)
qed

lemma length_str_nat_le: "n < 10 ^ Suc k \<Longrightarrow> length (str_nat n) \<le> Suc k"
proof (induction k arbitrary: n)
  case 0
  then show ?case by (simp add: str_nat_digit)
next
  case (Suc k)
  show ?case
  proof (cases "n < 10")
    case True
    then show ?thesis by (simp add: str_nat_digit)
  next
    case False
    have "n div 10 < 10 ^ Suc k" using Suc.prems by simp
    then have "length (str_nat (n div 10)) \<le> Suc k" by (rule Suc.IH)
    then show ?thesis using False by (simp add: str_nat_step)
  qed
qed

lemma length_str_nat_digits_value:
  assumes "list_all is_digit ds" and "ds \<noteq> []"
  shows "length (str_nat (digits_value ds)) \<le> length ds"
proof -
  obtain k where k: "length ds = Suc k" using assms(2) by (cases ds) auto
  have "digits_value ds < 10 ^ Suc k" using digits_value_bound [OF assms(1)] k by simp
  then show ?thesis using length_str_nat_le k by simp
qed

lemma str_nat_hd: "0 < n \<Longrightarrow> hd (str_nat n) \<noteq> 48"
proof (induction n rule: str_nat.induct)
  case (1 n)
  show ?case
  proof (cases "n < 10")
    case True
    then show ?thesis using 1(2) by (simp add: str_nat_digit digit_char_def)
  next
    case False
    then have "0 < n div 10" by simp
    then have "hd (str_nat (n div 10)) \<noteq> 48" using 1(1) False by simp
    then show ?thesis using False str_nat_not_Nil [of "n div 10"] by (simp add: str_nat_step)
  qed
qed

lemma plain_str_nat: "plain_number (str_nat n)"
proof (cases "n = 0")
  case True
  then show ?thesis
    by (simp add: str_nat_digit digit_char_def plain_number_def ascii_digit_def)
next
  case False
  then have "hd (str_nat n) \<noteq> 48" by (simp add: str_nat_hd)
  then show ?thesis using str_nat_not_Nil [of n] str_nat_ascii [of n]
    by (cases "str_nat n") (simp_all add: plain_number_def)
qed

subsection \<open>The pattern\<close>

lemma not_digit_dot: "\<not> is_digit 46"
  by (simp add: is_digit_low)

lemma not_digit_minus: "\<not> is_digit 45"
  by (simp add: is_digit_low)

lemma lit_chars: "lit ''v'' = [118]" "lit ''.'' = [46]" "lit ''-rc'' = [45, 114, 99]"
  by (simp_all add: lit_def)

lemma lit_append: "lit a @ lit b = lit (a @ b)"
  by (simp add: lit_def)

lemma lit_eq_iff: "(lit a = lit b) = (a = b)"
  by (simp add: lit_def inj_map_eq_map inj_def)

lemma startswith_lit: "startswith (lit a) (lit b) = (take (length b) a = b)"
  by (simp add: startswith_def lit_def take_map inj_map_eq_map inj_def)

lemma takeWhile_digits: "list_all is_digit (takeWhile is_digit xs)"
  by (induction xs) simp_all

lemma span_digits_stop:
  "list_all is_digit xs \<Longrightarrow> \<not> is_digit y \<Longrightarrow>
   takeWhile is_digit (xs @ y # ys) = xs \<and> dropWhile is_digit (xs @ y # ys) = y # ys"
  by (induction xs) simp_all

lemma span_digits_end:
  "list_all is_digit xs \<Longrightarrow> takeWhile is_digit xs = xs \<and> dropWhile is_digit xs = []"
  by (induction xs) simp_all

lemma digits_prefix_unique:
  assumes "list_all is_digit xs" "list_all is_digit ys" "\<not> is_digit a" "\<not> is_digit b"
    and "xs @ a # r = ys @ b # r'"
  shows "xs = ys \<and> r = r'"
proof -
  have "takeWhile is_digit (xs @ a # r) = xs" using span_digits_stop [OF assms(1,3)] by simp
  moreover have "takeWhile is_digit (ys @ b # r') = ys"
    using span_digits_stop [OF assms(2,4)] by simp
  ultimately have "xs = ys" using assms(5) by simp
  then show ?thesis using assms(5) by simp
qed

lemma match_candidate_SomeD:
  "match_candidate r = Some cd \<Longrightarrow>
   r = candidate_suffix cd
   \<and> (case cd of None \<Rightarrow> True | Some c \<Rightarrow> list_all is_digit c \<and> c \<noteq> [])"
  by (induction r rule: match_candidate.induct)
     (auto simp add: candidate_suffix_def lit_chars split: if_splits)

lemma match_candidate_suffix:
  "(case cd of None \<Rightarrow> True | Some c \<Rightarrow> list_all is_digit c \<and> c \<noteq> []) \<Longrightarrow>
   match_candidate (candidate_suffix cd) = Some cd"
  by (cases cd) (simp_all add: candidate_suffix_def lit_chars)

lemma fullmatch_SomeD:
  assumes "version_pattern_fullmatch s = Some (mj, fn, tc, cd)"
  shows "s = 118 # mj @ 46 # fn @ 46 # tc @ candidate_suffix cd"
    and "digit_groups (mj, fn, tc, cd)"
proof -
  from assms obtain r r2 r4 where
    s: "s = 118 # r" and
    mj: "mj = takeWhile is_digit r" "length mj = 6" and
    r1: "dropWhile is_digit r = 46 # r2" and
    fn: "fn = takeWhile is_digit r2" "fn \<noteq> []" and
    r3: "dropWhile is_digit r2 = 46 # r4" and
    tc: "tc = takeWhile is_digit r4" "tc \<noteq> []" and
    cd: "match_candidate (dropWhile is_digit r4) = Some cd"
    unfolding version_pattern_fullmatch_def
    by (auto simp add: Let_def lit_chars split: list.splits if_splits option.splits)
  note sfx = match_candidate_SomeD [OF cd]
  have "r = mj @ 46 # r2"
    using takeWhile_dropWhile_id [of is_digit r] mj(1) r1 by simp
  moreover have "r2 = fn @ 46 # r4"
    using takeWhile_dropWhile_id [of is_digit r2] fn(1) r3 by simp
  moreover have "r4 = tc @ candidate_suffix cd"
    using takeWhile_dropWhile_id [of is_digit r4] tc(1) sfx by simp
  ultimately show "s = 118 # mj @ 46 # fn @ 46 # tc @ candidate_suffix cd"
    using s by simp
  show "digit_groups (mj, fn, tc, cd)"
    using mj fn tc sfx by (simp add: digit_groups_def takeWhile_digits)
qed

lemma fullmatch_compose:
  assumes "digit_groups (mj, fn, tc, cd)"
  shows "version_pattern_fullmatch (118 # mj @ 46 # fn @ 46 # tc @ candidate_suffix cd)
         = Some (mj, fn, tc, cd)"
proof -
  have g: "list_all is_digit mj" "length mj = 6" "list_all is_digit fn" "fn \<noteq> []"
    "list_all is_digit tc" "tc \<noteq> []"
    "case cd of None \<Rightarrow> True | Some c \<Rightarrow> list_all is_digit c \<and> c \<noteq> []"
    using assms by (simp_all add: digit_groups_def)
  note a = span_digits_stop [OF g(1) not_digit_dot]
  note b = span_digits_stop [OF g(3) not_digit_dot]
  have c: "takeWhile is_digit (tc @ candidate_suffix cd) = tc
           \<and> dropWhile is_digit (tc @ candidate_suffix cd) = candidate_suffix cd"
  proof (cases cd)
    case None
    then show ?thesis using span_digits_end [OF g(5)] by (simp add: candidate_suffix_def)
  next
    case (Some x)
    then show ?thesis using span_digits_stop [OF g(5) not_digit_minus]
      by (simp add: candidate_suffix_def lit_chars)
  qed
  show ?thesis
    unfolding version_pattern_fullmatch_def
    using g(2,4,6) match_candidate_suffix [OF g(7)] by (simp add: a b c Let_def lit_chars)
qed

subsection \<open>Where formatting and parsing undo each other\<close>

lemma str_int_nat: "str_int (int n) = str_nat n"
  by (simp add: str_int_def)

lemma from_string_InrD:
  assumes "from_string s allow = Inr v"
  obtains mj fn tc cd where
    "version_pattern_fullmatch s = Some (mj, fn, tc, cd)"
    "v = \<lparr>major = int (digits_value mj), functional = int (digits_value fn),
          technical = int (digits_value tc),
          candidate = map_option (\<lambda>c. int (digits_value c)) cd\<rparr>"
  using assms unfolding from_string_def py_int_def
  by (auto simp add: Let_def split: option.splits if_splits sum.splits)

lemma from_string_InrI:
  assumes "version_pattern_fullmatch s = Some (mj, fn, tc, cd)"
    and "length fn \<le> max_str_digits" and "length tc \<le> max_str_digits"
    and "case cd of None \<Rightarrow> True | Some c \<Rightarrow> length c \<le> max_str_digits"
  shows "from_string s True
         = Inr \<lparr>major = int (digits_value mj), functional = int (digits_value fn),
                technical = int (digits_value tc),
                candidate = map_option (\<lambda>c. int (digits_value c)) cd\<rparr>"
proof -
  have "length mj = 6" using fullmatch_SomeD(2) [OF assms(1)] by (simp add: digit_groups_def)
  then have "length mj \<le> max_str_digits" by (simp add: max_str_digits_def)
  then show ?thesis
    using assms unfolding from_string_def py_int_def
    by (cases cd) (simp_all add: Let_def)
qed

lemma from_string_lengths:
  assumes "from_string s allow = Inr v"
    and "version_pattern_fullmatch s = Some (mj, fn, tc, cd)"
  shows "length fn \<le> max_str_digits" and "length tc \<le> max_str_digits"
    and "case cd of None \<Rightarrow> True | Some c \<Rightarrow> length c \<le> max_str_digits"
  using assms unfolding from_string_def py_int_def
  by (auto simp add: Let_def split: option.splits if_splits sum.splits)

lemma tag_name_parsed:
  "tag_name \<lparr>major = int (digits_value mj), functional = int (digits_value fn),
             technical = int (digits_value tc),
             candidate = map_option (\<lambda>c. int (digits_value c)) cd\<rparr>
   = 118 # str_nat (digits_value mj) @ 46 # str_nat (digits_value fn)
       @ 46 # str_nat (digits_value tc)
       @ candidate_suffix (map_option (\<lambda>c. str_nat (digits_value c)) cd)"
  by (cases cd) (simp_all add: tag_name_def str_int_nat candidate_suffix_def lit_chars)

text \<open>
  For a text in plain writing, formatting gives the text back; for a parsed version with
  a major number of six digits, parsing its tag name gives the version back.
\<close>

lemma round_trip_sufficient:
  "(from_string s True = Inr v \<and> plain_version_text s \<longrightarrow> tag_name v = s)
   \<and> (from_string s allow = Inr v \<and> 100000 \<le> major v
        \<longrightarrow> from_string (tag_name v) True = Inr v)"
proof (intro conjI impI)
  assume a: "from_string s True = Inr v \<and> plain_version_text s"
  then obtain mj fn tc cd where
    m: "version_pattern_fullmatch s = Some (mj, fn, tc, cd)" and
    v: "v = \<lparr>major = int (digits_value mj), functional = int (digits_value fn),
          technical = int (digits_value tc),
          candidate = map_option (\<lambda>c. int (digits_value c)) cd\<rparr>"
    by (auto elim: from_string_InrD)
  note s = fullmatch_SomeD(1) [OF m]
  have c: "plain_number mj" "plain_number fn" "plain_number tc"
    "case cd of None \<Rightarrow> True | Some c \<Rightarrow> plain_number c"
    using a m by (simp_all add: plain_version_text_def)
  have "candidate_suffix (map_option (\<lambda>c. str_nat (digits_value c)) cd) = candidate_suffix cd"
    using c(4) by (cases cd) (simp_all add: str_nat_digits_value)
  then have "tag_name v = 118 # mj @ 46 # fn @ 46 # tc @ candidate_suffix cd"
    unfolding v tag_name_parsed using c by (simp add: str_nat_digits_value)
  then show "tag_name v = s" using s by simp
next
  assume a: "from_string s allow = Inr v \<and> 100000 \<le> major v"
  then obtain mj fn tc cd where
    m: "version_pattern_fullmatch s = Some (mj, fn, tc, cd)" and
    v: "v = \<lparr>major = int (digits_value mj), functional = int (digits_value fn),
          technical = int (digits_value tc),
          candidate = map_option (\<lambda>c. int (digits_value c)) cd\<rparr>"
    by (auto elim: from_string_InrD)
  have a': "from_string s allow = Inr v" using a by simp
  note l = from_string_lengths [OF a' m]
  have g: "list_all is_digit mj" "length mj = 6" "list_all is_digit fn" "fn \<noteq> []"
    "list_all is_digit tc" "tc \<noteq> []"
    "case cd of None \<Rightarrow> True | Some c \<Rightarrow> list_all is_digit c \<and> c \<noteq> []"
    using fullmatch_SomeD(2) [OF m] by (simp_all add: digit_groups_def)
  have lo: "10 ^ 5 \<le> digits_value mj" using a v by simp
  have hi: "digits_value mj < 10 ^ Suc 5" using digits_value_bound [OF g(1)] g(2) by simp
  have len: "length (str_nat (digits_value mj)) = 6"
    using length_str_nat [OF lo hi] by simp
  let ?cd = "map_option (\<lambda>c. str_nat (digits_value c)) cd"
  have dg: "digit_groups (str_nat (digits_value mj), str_nat (digits_value fn),
          str_nat (digits_value tc), ?cd)"
    using len by (cases cd) (simp_all add: digit_groups_def str_nat_digits str_nat_not_Nil)
  have m': "version_pattern_fullmatch (tag_name v)
      = Some (str_nat (digits_value mj), str_nat (digits_value fn),
          str_nat (digits_value tc), ?cd)"
    unfolding v tag_name_parsed using dg by (rule fullmatch_compose)
  have l1: "length (str_nat (digits_value fn)) \<le> max_str_digits"
    using length_str_nat_digits_value [OF g(3,4)] l(1) by simp
  have l2: "length (str_nat (digits_value tc)) \<le> max_str_digits"
    using length_str_nat_digits_value [OF g(5,6)] l(2) by simp
  have l3: "case ?cd of None \<Rightarrow> True | Some c \<Rightarrow> length c \<le> max_str_digits"
  proof (cases cd)
    case None
    then show ?thesis by simp
  next
    case (Some c)
    then have "list_all is_digit c" "c \<noteq> []" "length c \<le> max_str_digits"
      using g(7) l(3) by simp_all
    then have "length (str_nat (digits_value c)) \<le> max_str_digits"
      using length_str_nat_digits_value [of c] by simp
    then show ?thesis using Some by simp
  qed
  have "from_string (tag_name v) True
      = Inr \<lparr>major = int (digits_value (str_nat (digits_value mj))),
             functional = int (digits_value (str_nat (digits_value fn))),
             technical = int (digits_value (str_nat (digits_value tc))),
             candidate = map_option (\<lambda>c. int (digits_value c)) ?cd\<rparr>"
    using m' l1 l2 l3 by (rule from_string_InrI)
  then show "from_string (tag_name v) True = Inr v"
    unfolding v by (cases cd) (simp_all add: digits_value_str_nat)
qed

lemma tag_name_groups:
  assumes m: "version_pattern_fullmatch s = Some (mj, fn, tc, cd)"
    and v: "v = \<lparr>major = int (digits_value mj), functional = int (digits_value fn),
          technical = int (digits_value tc),
          candidate = map_option (\<lambda>c. int (digits_value c)) cd\<rparr>"
    and m': "version_pattern_fullmatch (tag_name v) = Some (mj', fn', tc', cd')"
  shows "mj' = str_nat (digits_value mj) \<and> fn' = str_nat (digits_value fn)
    \<and> tc' = str_nat (digits_value tc)
    \<and> cd' = map_option (\<lambda>c. str_nat (digits_value c)) cd"
proof -
  let ?cd = "map_option (\<lambda>c. str_nat (digits_value c)) cd"
  have e: "118 # mj' @ 46 # fn' @ 46 # tc' @ candidate_suffix cd'
     = 118 # str_nat (digits_value mj) @ 46 # str_nat (digits_value fn)
       @ 46 # str_nat (digits_value tc) @ candidate_suffix ?cd"
    using fullmatch_SomeD(1) [OF m'] unfolding v tag_name_parsed by simp
  have g: "list_all is_digit mj'" "list_all is_digit fn'" "list_all is_digit tc'"
    "case cd' of None \<Rightarrow> True | Some c \<Rightarrow> list_all is_digit c"
    using fullmatch_SomeD(2) [OF m'] by (auto simp add: digit_groups_def split: option.splits)
  have 1: "mj' = str_nat (digits_value mj)
    \<and> fn' @ 46 # tc' @ candidate_suffix cd'
      = str_nat (digits_value fn) @ 46 # str_nat (digits_value tc) @ candidate_suffix ?cd"
    using e
    by (intro digits_prefix_unique [OF g(1) str_nat_digits not_digit_dot not_digit_dot]) simp
  have 2: "fn' = str_nat (digits_value fn)
    \<and> tc' @ candidate_suffix cd' = str_nat (digits_value tc) @ candidate_suffix ?cd"
    using 1
    by (intro digits_prefix_unique [OF g(2) str_nat_digits not_digit_dot not_digit_dot]) simp
  have t: "takeWhile is_digit (xs @ candidate_suffix c) = xs
      \<and> dropWhile is_digit (xs @ candidate_suffix c) = candidate_suffix c"
    if "list_all is_digit xs" for xs c
    using span_digits_end [OF that] span_digits_stop [OF that not_digit_minus]
    by (cases c) (simp_all add: candidate_suffix_def lit_chars)
  have 3: "tc' = str_nat (digits_value tc)"
    using 2 t [OF g(3), of cd'] t [OF str_nat_digits, of "digits_value tc" ?cd] by metis
  have 4: "candidate_suffix cd' = candidate_suffix ?cd"
    using 2 3 by simp
  have "cd' = ?cd"
    using 4 by (cases cd'; cases cd) (simp_all add: candidate_suffix_def lit_chars)
  then show ?thesis using 1 2 3 by simp
qed

text \<open>
  These are the only cases: formatting gives the text back only if the text is in plain
  writing, and a tag name parses back only if the major number has six digits.
\<close>

lemma round_trip_exact:
  "(from_string s True = Inr v \<longrightarrow> (tag_name v = s) = plain_version_text s)
   \<and> (from_string s allow = Inr v
        \<longrightarrow> (from_string (tag_name v) True = Inr v) = (100000 \<le> major v))"
proof (intro conjI impI)
  assume a: "from_string s True = Inr v"
  then obtain mj fn tc cd where
    m: "version_pattern_fullmatch s = Some (mj, fn, tc, cd)" and
    v: "v = \<lparr>major = int (digits_value mj), functional = int (digits_value fn),
          technical = int (digits_value tc),
          candidate = map_option (\<lambda>c. int (digits_value c)) cd\<rparr>"
    by (auto elim: from_string_InrD)
  show "(tag_name v = s) = plain_version_text s"
  proof
    assume "plain_version_text s"
    then show "tag_name v = s" using round_trip_sufficient [of s v] a by simp
  next
    assume t: "tag_name v = s"
    then have "version_pattern_fullmatch (tag_name v) = Some (mj, fn, tc, cd)" using m by simp
    note g = tag_name_groups [OF m v this]
    have 1: "plain_number mj" using g plain_str_nat by metis
    have 2: "plain_number fn" using g plain_str_nat by metis
    have 3: "plain_number tc" using g plain_str_nat by metis
    have 4: "case cd of None \<Rightarrow> True | Some c \<Rightarrow> plain_number c"
    proof (cases cd)
      case None
      then show ?thesis by simp
    next
      case (Some c)
      then have "c = str_nat (digits_value c)" using g by simp
      then have "plain_number c" using plain_str_nat by metis
      then show ?thesis using Some by simp
    qed
    show "plain_version_text s" using m 1 2 3 4 by (simp add: plain_version_text_def)
  qed
next
  assume a: "from_string s allow = Inr v"
  then obtain mj fn tc cd where
    m: "version_pattern_fullmatch s = Some (mj, fn, tc, cd)" and
    v: "v = \<lparr>major = int (digits_value mj), functional = int (digits_value fn),
          technical = int (digits_value tc),
          candidate = map_option (\<lambda>c. int (digits_value c)) cd\<rparr>"
    by (auto elim: from_string_InrD)
  show "(from_string (tag_name v) True = Inr v) = (100000 \<le> major v)"
  proof
    assume "100000 \<le> major v"
    then show "from_string (tag_name v) True = Inr v"
      using round_trip_sufficient [of s v allow] a by simp
  next
    assume "from_string (tag_name v) True = Inr v"
    then obtain mj' fn' tc' cd' where
      m': "version_pattern_fullmatch (tag_name v) = Some (mj', fn', tc', cd')"
      by (auto elim: from_string_InrD)
    have "mj' = str_nat (digits_value mj)" using tag_name_groups [OF m v m'] by simp
    moreover have "length mj' = 6"
      using fullmatch_SomeD(2) [OF m'] by (simp add: digit_groups_def)
    ultimately have len: "length (str_nat (digits_value mj)) = 6" by simp
    have "\<not> digits_value mj < 10 ^ Suc 4"
      using length_str_nat_le [of "digits_value mj" 4] len by auto
    then show "100000 \<le> major v" unfolding v by simp
  qed
qed

lemmas eval_more = eval_simps plain_version_text_def plain_number_def ascii_digit_def
  final_release_def release_candidate_def

lemma fullwidth_two: "is_digit 65298" "digit_value 65298 = 2"
  by (simp_all add: is_digit_def digit_value_def zero_of_def decimal_zeros_def
      other_decimal_zeros_def)

lemma branch_reference:
  assumes "from_string on_branch True = Inl e"
  shows "get_last_n_tags env n on_branch exclude_candidates
         = (case git_tag_merged env (lit ''remotes/origin/'' @ on_branch) of
              None \<Rightarrow> ([], Some ExternalFailure)
            | Some listing \<Rightarrow> tags_loop n exclude_candidates 0 listing)"
  using assms
  by (simp add: get_last_n_tags_def startswith_def lit_def split: option.splits)

text \<open>
  Claim C3: formatting and parsing are not inverse to each other. \<^verbatim>\<open>v202401.01.2\<close> and
  \<^verbatim>\<open>v202401.1.\<close> followed by the full-width digit two (U+FF12) both match the pattern
  and are parsed to the version that \<^verbatim>\<open>tag_name\<close> writes as \<^verbatim>\<open>v202401.1.2\<close>.
  \<^verbatim>\<open>v000001.0.0\<close> is parsed to a version whose tag name \<^verbatim>\<open>v1.0.0\<close> \<^verbatim>\<open>from_string\<close>
  rejects, and \<^verbatim>\<open>get_last_n_tags\<close>, which \<^verbatim>\<open>get_last_version_before\<close> calls with that tag
  name, takes it for the name of a branch.
\<close>

theorem round_trip_lost:
  "from_string (lit ''v202401.01.2'') True = Inr (final_release 202401 1 2)
   \<and> from_string (lit ''v202401.1.'' @ [65298]) True = Inr (final_release 202401 1 2)
   \<and> tag_name (final_release 202401 1 2) = lit ''v202401.1.2''
   \<and> from_string (lit ''v000001.0.0'') True = Inr (final_release 1 0 0)
   \<and> tag_name (final_release 1 0 0) = lit ''v1.0.0''
   \<and> from_string (lit ''v1.0.0'') True = Inl (ValueError PatternMismatch)
   \<and> get_last_n_tags env n (tag_name (final_release 1 0 0)) exclude_candidates
       = (case git_tag_merged env (lit ''remotes/origin/v1.0.0'') of
            None \<Rightarrow> ([], Some ExternalFailure)
          | Some listing \<Rightarrow> tags_loop n exclude_candidates 0 listing)"
proof -
  have 1: "from_string (lit ''v202401.01.2'') True = Inr (final_release 202401 1 2)"
    by (simp add: eval_more)
  have 2: "from_string (lit ''v202401.1.'' @ [65298]) True = Inr (final_release 202401 1 2)"
    by (simp add: eval_more fullwidth_two)
  have 3: "tag_name (final_release 202401 1 2) = lit ''v202401.1.2''"
    by (simp add: eval_more)
  have 4: "from_string (lit ''v000001.0.0'') True = Inr (final_release 1 0 0)"
    by (simp add: eval_more)
  have 5: "tag_name (final_release 1 0 0) = lit ''v1.0.0''"
    by (simp add: eval_more)
  have 6: "from_string (lit ''v1.0.0'') True = Inl (ValueError PatternMismatch)"
    by (simp add: eval_more)
  have 7: "get_last_n_tags env n (tag_name (final_release 1 0 0)) exclude_candidates
       = (case git_tag_merged env (lit ''remotes/origin/v1.0.0'') of
            None \<Rightarrow> ([], Some ExternalFailure)
          | Some listing \<Rightarrow> tags_loop n exclude_candidates 0 listing)"
    using branch_reference [of "lit ''v1.0.0''" "ValueError PatternMismatch"] 6
    by (simp add: 5 lit_def)
  show ?thesis using 1 2 3 4 5 6 7 by simp
qed

theorem round_trip_lost_witness:
  "tag_name (final_release 202401 1 2) \<noteq> lit ''v202401.01.2''
   \<and> (\<exists>e. from_string (tag_name (final_release 1 0 0)) True = Inl e)"
  using round_trip_lost [of late_tag_history 1 True] by (simp add: lit_def)

section \<open>Properties of the bump-policy enforcer\<close>

lemmas strip_simps = strip_def lstrip_def rstrip_def lstrip_chars_def is_space_def
  white_space_def lit_def

lemma tags_loop_subset: "set (fst (tags_loop n ex counter listing)) \<subseteq> set listing"
  by (induction n ex counter listing rule: tags_loop.induct)
     (auto split: sum.splits prod.splits if_splits)

lemma bumped_major_gt: "bumped_major a b \<Longrightarrow> Version_gt a b"
  by (simp add: bumped_major_def Version_gt_def)

lemma gates_ignore_schema_diff [simp]:
  "get_latest_version (env\<lparr>compare_bo4e_versions := schema_diff\<rparr>) = get_latest_version env"
  "ensure_latest_on_main (env\<lparr>compare_bo4e_versions := schema_diff\<rparr>) l c = ensure_latest_on_main env l c"
  "get_last_n_tags (env\<lparr>compare_bo4e_versions := schema_diff\<rparr>) n b x = get_last_n_tags env n b x"
  "get_last_version_before (env\<lparr>compare_bo4e_versions := schema_diff\<rparr>) v = get_last_version_before env v"
  by (simp_all add: get_latest_version_def ensure_latest_on_main_def get_last_n_tags_def
      get_last_version_before_def Let_def split: option.splits)

text \<open>
  Claim C8. Once the predecessor \<open>version_behind\<close> is located, the check ends in the
  \<^verbatim>\<open>AssertionError\<close> exactly when \<^verbatim>\<open>cur_version > version_behind\<close> is false, whatever
  \<^verbatim>\<open>major_bump_allowed\<close> is and whatever the schema comparison would answer: neither is
  looked at before the assertion.
\<close>

theorem version_must_increase:
  assumes "from_string gh_version True = Inr cur_version"
    and "get_latest_version env = Inr latest_version"
    and "ensure_latest_on_main env latest_version (Version_eq cur_version latest_version) = Inr ()"
    and "get_last_version_before env cur_version = Inr version_behind"
  shows "(compare_work_tree_with_latest_version (env\<lparr>compare_bo4e_versions := schema_diff\<rparr>)
            gh_version major_bump_allowed = Inl AssertionError)
         = (\<not> Version_gt cur_version version_behind)"
  using assms
  by (simp add: compare_work_tree_with_latest_version_def Let_def split: option.splits)

text \<open>
  Claim C7. When \<^verbatim>\<open>cur_version.bumped_major(version_behind)\<close> holds, the check fails with
  the policy error \<open>MajorBumpNotAllowed\<close> if \<^verbatim>\<open>major_bump_allowed\<close> is false and succeeds
  if it is true, for every schema comparison put in the place of the real one (also one
  that raises): the comparison is never consulted.
\<close>

theorem major_bump_bypass:
  assumes "from_string gh_version True = Inr cur_version"
    and "get_latest_version env = Inr latest_version"
    and "ensure_latest_on_main env latest_version (Version_eq cur_version latest_version) = Inr ()"
    and "get_last_version_before env cur_version = Inr version_behind"
    and "bumped_major cur_version version_behind"
  shows "compare_work_tree_with_latest_version (env\<lparr>compare_bo4e_versions := schema_diff\<rparr>)
            gh_version major_bump_allowed
         = (if major_bump_allowed then Inr () else Inl (ValueError MajorBumpNotAllowed))"
  using assms bumped_major_gt [OF assms(5)]
  by (simp add: compare_work_tree_with_latest_version_def Let_def)

text \<open>
  Claim C6. When the earlier gates pass and the version is not a major bump, the check
  fails with \<open>FunctionalBumpWithoutChanges\<close> if there are no changes but a functional bump,
  fails with \<open>ChangesWithoutFunctionalBump\<close> if there are changes but no functional bump,
  and succeeds in the two other cases.
\<close>

theorem bump_policy_agreement:
  assumes "from_string gh_version True = Inr cur_version"
    and "get_latest_version env = Inr latest_version"
    and "ensure_latest_on_main env latest_version (Version_eq cur_version latest_version) = Inr ()"
    and "get_last_version_before env cur_version = Inr version_behind"
    and "Version_gt cur_version version_behind"
    and "\<not> bumped_major cur_version version_behind"
    and "compare_bo4e_versions env (tag_name version_behind) (tag_name cur_version) = Some changes"
  shows "compare_work_tree_with_latest_version env gh_version major_bump_allowed
         = (if changes = [] \<and> bumped_functional cur_version version_behind
            then Inl (ValueError FunctionalBumpWithoutChanges)
            else if changes \<noteq> [] \<and> \<not> bumped_functional cur_version version_behind
            then Inl (ValueError ChangesWithoutFunctionalBump)
            else Inr ())"
  using assms
  by (simp add: compare_work_tree_with_latest_version_def Let_def)

lemma is_candidate_shapes:
  "is_candidate (release_candidate M F T N)" "\<not> is_candidate (final_release M F T)"
  by (simp_all add: Version_shapes)

lemma parse_examples:
  "from_string (lit ''v202401.2.0'') True = Inr (final_release 202401 2 0)"
  "from_string (lit ''v202401.1.2'') True = Inr (final_release 202401 1 2)"
  "from_string (lit ''v202402.0.0'') True = Inr (final_release 202402 0 0)"
  "from_string (lit ''v202401.0.1'') True = Inr (final_release 202401 0 1)"
  "from_string (lit ''v202401.1.0'') True = Inr (final_release 202401 1 0)"
  "from_string (lit ''v202401.0.0'') True = Inr (final_release 202401 0 0)"
  "from_string (lit ''v202401.2.0-rc1'') True = Inr (release_candidate 202401 2 0 1)"
  "from_string (lit ''v202401.1.1'') allow = Inr (final_release 202401 1 1)"
  by (simp_all add: eval_more)

lemma tag_name_examples:
  "tag_name (final_release 202401 2 0) = (lit ''v202401.2.0'')"
  "tag_name (final_release 202401 1 2) = (lit ''v202401.1.2'')"
  "tag_name (final_release 202402 0 0) = (lit ''v202402.0.0'')"
  "tag_name (final_release 202401 0 1) = (lit ''v202401.0.1'')"
  "tag_name (final_release 202401 1 1) = (lit ''v202401.1.1'')"
  by (simp_all add: eval_more)

lemma latest_release_history:
  "get_latest_version (release_history ahead changes) = Inr (final_release 202401 1 1)"
  by (simp add: get_latest_version_def release_history_def parse_examples)

lemma ensure_release_history:
  "ensure_latest_on_main (release_history ahead changes) (final_release 202401 1 1) b = Inr ()"
  by (simp add: ensure_latest_on_main_def tag_name_examples release_history_def strip_simps)

lemma before_release_history:
  assumes "from_string ahead True = Inr v" and "tag_name v = ahead"
  shows "get_last_version_before (release_history ahead changes) v
         = Inr (final_release 202401 1 1)"
  using assms
  by (simp add: get_last_version_before_def get_last_n_tags_def release_history_def
      startswith_def parse_examples is_candidate_shapes Let_def)

lemma schema_diff_release_history:
  "compare_bo4e_versions (release_history ahead changes) (lit ''v202401.1.1'') ahead = Some changes"
  by (simp add: release_history_def)

lemmas before_examples =
  before_release_history [OF parse_examples(1) tag_name_examples(1)]
  before_release_history [OF parse_examples(2) tag_name_examples(2)]
  before_release_history [OF parse_examples(3) tag_name_examples(3)]
  before_release_history [OF parse_examples(4) tag_name_examples(4)]

lemma order_examples:
  "Version_gt (final_release 202401 2 0) (final_release 202401 1 1)"
  "Version_gt (final_release 202401 1 2) (final_release 202401 1 1)"
  "\<not> Version_gt (final_release 202401 0 1) (final_release 202401 1 1)"
  "\<not> bumped_major (final_release 202401 2 0) (final_release 202401 1 1)"
  "\<not> bumped_major (final_release 202401 1 2) (final_release 202401 1 1)"
  "bumped_major (final_release 202402 0 0) (final_release 202401 1 1)"
  "bumped_functional (final_release 202401 2 0) (final_release 202401 1 1)"
  "\<not> bumped_functional (final_release 202401 1 2) (final_release 202401 1 1)"
  by (simp_all add: Version_gt_def Version_shapes bumped_defs)

lemma schema_diff_examples:
  "compare_bo4e_versions (release_history (lit ''v202401.2.0'') changes)
     (tag_name (final_release 202401 1 1)) (tag_name (final_release 202401 2 0)) = Some changes"
  "compare_bo4e_versions (release_history (lit ''v202401.1.2'') changes)
     (tag_name (final_release 202401 1 1)) (tag_name (final_release 202401 1 2)) = Some changes"
  by (simp_all add: tag_name_examples release_history_def)

text \<open>
  The four cases on the first history: a functional bump (\<^verbatim>\<open>v202401.2.0\<close>) and a
  technical bump (\<^verbatim>\<open>v202401.1.2\<close>) over \<^verbatim>\<open>v202401.1.1\<close>, each without and with a change.
\<close>

theorem bump_policy_agreement_witness:
  "compare_work_tree_with_latest_version (release_history (lit ''v202401.2.0'') [])
     (lit ''v202401.2.0'') True = Inl (ValueError FunctionalBumpWithoutChanges)
   \<and> compare_work_tree_with_latest_version (release_history (lit ''v202401.2.0'') [(lit ''Zaehlertyp'')])
     (lit ''v202401.2.0'') True = Inr ()
   \<and> compare_work_tree_with_latest_version (release_history (lit ''v202401.1.2'') [])
     (lit ''v202401.1.2'') True = Inr ()
   \<and> compare_work_tree_with_latest_version (release_history (lit ''v202401.1.2'') [(lit ''Zaehlertyp'')])
     (lit ''v202401.1.2'') True = Inl (ValueError ChangesWithoutFunctionalBump)"
proof -
  have f: "compare_work_tree_with_latest_version (release_history (lit ''v202401.2.0'') changes)
      (lit ''v202401.2.0'') True
    = (if changes = [] then Inl (ValueError FunctionalBumpWithoutChanges) else Inr ())"
    for changes
    using bump_policy_agreement [OF parse_examples(1) latest_release_history ensure_release_history
        before_examples(1) order_examples(1) order_examples(4) schema_diff_examples(1)]
    by (simp add: order_examples)
  have t: "compare_work_tree_with_latest_version (release_history (lit ''v202401.1.2'') changes)
      (lit ''v202401.1.2'') True
    = (if changes = [] then Inr () else Inl (ValueError ChangesWithoutFunctionalBump))"
    for changes
    using bump_policy_agreement [OF parse_examples(2) latest_release_history ensure_release_history
        before_examples(2) order_examples(2) order_examples(5) schema_diff_examples(2)]
    by (simp add: order_examples)
  show ?thesis by (simp add: f t)
qed

text \<open>
  The major bump \<^verbatim>\<open>v202402.0.0\<close> over \<^verbatim>\<open>v202401.1.1\<close>, allowed with a comparison that
  raises and forbidden with one that reports a change.
\<close>

theorem major_bump_bypass_witness:
  "compare_work_tree_with_latest_version
     ((release_history (lit ''v202402.0.0'') [(lit ''Zaehlertyp'')])\<lparr>compare_bo4e_versions := \<lambda>a b. None\<rparr>)
     (lit ''v202402.0.0'') True = Inr ()
   \<and> compare_work_tree_with_latest_version
     ((release_history (lit ''v202402.0.0'') [])\<lparr>compare_bo4e_versions := \<lambda>a b. Some [(lit ''Zaehlertyp'')]\<rparr>)
     (lit ''v202402.0.0'') False = Inl (ValueError MajorBumpNotAllowed)"
  using major_bump_bypass [OF parse_examples(3) latest_release_history ensure_release_history
        before_examples(3) order_examples(6)]
  by simp

text \<open>
  \<^verbatim>\<open>v202401.0.1\<close> is not greater than its predecessor \<^verbatim>\<open>v202401.1.1\<close>;
  \<^verbatim>\<open>v202401.2.0\<close> is.
\<close>

theorem version_must_increase_witness:
  "compare_work_tree_with_latest_version
     ((release_history (lit ''v202401.0.1'') [])\<lparr>compare_bo4e_versions := \<lambda>a b. Some [(lit ''Zaehlertyp'')]\<rparr>)
     (lit ''v202401.0.1'') True = Inl AssertionError
   \<and> compare_work_tree_with_latest_version
     ((release_history (lit ''v202401.2.0'') [])\<lparr>compare_bo4e_versions := \<lambda>a b. Some [(lit ''Zaehlertyp'')]\<rparr>)
     (lit ''v202401.2.0'') True \<noteq> Inl AssertionError"
  using version_must_increase [OF parse_examples(4) latest_release_history ensure_release_history
        before_examples(4)]
    version_must_increase [OF parse_examples(1) latest_release_history ensure_release_history
        before_examples(1)]
  by (simp add: order_examples)

subsection \<open>The tag-history reader\<close>

text \<open>
  The reader drops the first line of the listing. When the reference tag is that line
  and occurs only there, it is not among the tags produced.
\<close>

lemma reference_skipped_when_first:
  assumes "from_string on_branch True = Inr v"
    and "git_tag_merged env ((lit ''tags/'') @ on_branch) = Some (on_branch # rest)"
    and "on_branch \<notin> set rest"
  shows "on_branch \<notin> set (fst (get_last_n_tags env n on_branch exclude_candidates))"
proof -
  have "get_last_n_tags env n on_branch exclude_candidates
        = tags_loop n exclude_candidates 0 rest"
    using assms(1,2) by (simp add: get_last_n_tags_def startswith_def)
  then show ?thesis using tags_loop_subset [of n exclude_candidates 0 rest] assms(3) by auto
qed

text \<open>
  Claim C9: on the second history the reference \<^verbatim>\<open>v202401.1.0\<close> parses as a version and
  is reachable from itself, its line is the second of the listing, and the reader called
  with \<^verbatim>\<open>n = 2\<close> drops \<^verbatim>\<open>v202401.0.1\<close> and produces the reference tag itself.
\<close>

theorem reference_tag_not_skipped:
  "from_string (lit ''v202401.1.0'') True = Inr (final_release 202401 1 0)
   \<and> git_tag_merged late_tag_history (lit ''tags/v202401.1.0'')
       = Some [(lit ''v202401.0.1''), (lit ''v202401.1.0''), (lit ''v202401.0.0'')]
   \<and> get_last_n_tags late_tag_history 2 (lit ''v202401.1.0'') True
       = ([(lit ''v202401.1.0''), (lit ''v202401.0.0'')], None)"
  by (simp add: get_last_n_tags_def late_tag_history_def parse_examples
      is_candidate_shapes lit_append lit_eq_iff startswith_lit)

theorem reference_tag_not_skipped_witness:
  "(lit ''v202401.1.0'') \<in> set (fst (get_last_n_tags late_tag_history 2 (lit ''v202401.1.0'') True))"
  using reference_tag_not_skipped by simp

end
